theory Spec2Isabelle
  imports Main "HOL-Library.AList"
begin

section \<open>The entity model (hippo.py, lines 12-37)\<close>

text \<open>
  The three dataclasses of \<^verbatim>\<open>hippo.py\<close>. Their fields \<^verbatim>\<open>id\<close>, \<^verbatim>\<open>application\<close>,
  \<^verbatim>\<open>path\<close>, \<^verbatim>\<open>name\<close> and \<^verbatim>\<open>writeable\<close> carry the class as a prefix
  (\<open>Token_id\<close> for \<^verbatim>\<open>Token.id\<close>), because the classes share field names and \<open>id\<close> is a
  constant of HOL.
\<close>

datatype Database =
  Database (Database_id: string) (Database_application: string) (Database_path: string)

datatype Application =
  Application (Application_id: string) (Application_name: string)

datatype Token =
  Token (Token_id: string) (Token_application: string) (Token_writeable: bool)

text \<open>
  The two exceptions the storage layer can raise: a missing dictionary key and a missing
  file or directory.
\<close>

datatype error = KeyError | FileNotFoundError

section \<open>Python dictionaries\<close>

text \<open>
  A \<^verbatim>\<open>dict\<close> keeps its keys in insertion order, and the code iterates over
  \<^verbatim>\<open>values()\<close> and \<^verbatim>\<open>items()\<close>, so a dictionary is an association list:
  \<open>map_of d k\<close> is the lookup, \<open>AList.update k v d\<close> is \<^verbatim>\<open>d[k] = v\<close> (an existing key
  keeps its position, a new one goes to the end), \<open>AList.delete k d\<close> removes the key,
  \<open>map snd d\<close> is \<^verbatim>\<open>d.values()\<close> and \<open>map fst d\<close> is \<^verbatim>\<open>d.keys()\<close>.
\<close>

type_synonym ('k, 'v) dict = "('k \<times> 'v) list"

type_synonym DBMap = "(string, Database) dict"

type_synonym DocumentMap = "(string, string) dict"

definition getitem :: "('k, 'v) dict \<Rightarrow> 'k \<Rightarrow> error + 'v" where
  "getitem d k = (case map_of d k of None \<Rightarrow> Inl KeyError | Some v \<Rightarrow> Inr v)"

definition delitem :: "('k, 'v) dict \<Rightarrow> 'k \<Rightarrow> error + ('k, 'v) dict" where
  "delitem d k = (case map_of d k of None \<Rightarrow> Inl KeyError | Some v \<Rightarrow> Inr (AList.delete k d))"

definition setdefault :: "('k, 'v) dict \<Rightarrow> 'k \<Rightarrow> 'v \<Rightarrow> ('k, 'v) dict" where
  "setdefault d k v = (case map_of d k of None \<Rightarrow> AList.update k v d | Some w \<Rightarrow> d)"

text \<open>\<^verbatim>\<open>dict(pairs)\<close>: the pairs are inserted from left to right.\<close>

definition dict :: "('k \<times> 'v) list \<Rightarrow> ('k, 'v) dict" where
  "dict kvs = foldl (\<lambda>d kv. AList.update (fst kv) (snd kv) d) [] kvs"

section \<open>The files under the store root\<close>

text \<open>
  The layout on disk is fixed by the code:
  \<^verbatim>\<open>hippo_dir/applications.json\<close>, \<^verbatim>\<open>hippo_dir/db/<app>/map.json\<close>,
  \<^verbatim>\<open>hippo_dir/db/<app>/<db>/map.json\<close> and \<^verbatim>\<open>hippo_dir/db/<app>/<db>/<doc>\<close>.
  The disk is the tree of these directories; \<open>None\<close> is a store root that does not exist.
  A directory holds its side-car file (absent or present) and its children by name.
  The directory \<^verbatim>\<open>hippo_dir/db\<close> has no component of its own: \<^verbatim>\<open>mkdir(parents=True)\<close>
  creates it on the way and the code never looks at it alone.

  A side-car file is held as the JSON value it contains: \<^verbatim>\<open>orjson.dumps\<close> and
  \<^verbatim>\<open>orjson.loads\<close> are inverse on the values the code writes. An object is kept as its
  list of members, and reading it builds the dictionary with \<open>dict\<close>.

  Identifiers are the strings of \<^verbatim>\<open>uuid4\<close>: each is one path component and differs
  from \<^verbatim>\<open>map.json\<close>, so different application, database and document ids are
  different paths. Strings are byte strings (the UTF-8 encoding of the text).
\<close>

record db_dir =
  document_map_json :: "(string \<times> string) list option"
  document_files :: "string \<rightharpoonup> string"

record app_dir =
  db_map_json :: "(string \<times> Database) list option"
  db_dirs :: "string \<rightharpoonup> db_dir"

record hippo_dir =
  applications_json :: "(Application list \<times> Token list) option"
  app_dirs :: "string \<rightharpoonup> app_dir"

type_synonym disk = "hippo_dir option"

definition empty_db_dir :: db_dir where
  "empty_db_dir = \<lparr>document_map_json = None, document_files = Map.empty\<rparr>"

definition empty_app_dir :: app_dir where
  "empty_app_dir = \<lparr>db_map_json = None, db_dirs = Map.empty\<rparr>"

definition empty_hippo_dir :: hippo_dir where
  "empty_hippo_dir = \<lparr>applications_json = None, app_dirs = Map.empty\<rparr>"

definition root_of :: "disk \<Rightarrow> hippo_dir" where
  "root_of d = (case d of None \<Rightarrow> empty_hippo_dir | Some r \<Rightarrow> r)"

definition app_dir_of :: "disk \<Rightarrow> string \<Rightarrow> app_dir option" where
  "app_dir_of d a = (case d of None \<Rightarrow> None | Some r \<Rightarrow> app_dirs r a)"

definition db_dir_of :: "disk \<Rightarrow> string \<Rightarrow> string \<Rightarrow> db_dir option" where
  "db_dir_of d a b = (case app_dir_of d a of None \<Rightarrow> None | Some ad \<Rightarrow> db_dirs ad b)"

subsection \<open>What is on the disk\<close>

text \<open>
  The directories that exist (\<^verbatim>\<open>Path.exists\<close>) and the files, \<open>None\<close> for a file that
  does not exist.
\<close>

definition hippo_dir_exists :: "disk \<Rightarrow> bool" where
  "hippo_dir_exists d = (d \<noteq> None)"

definition app_dir_exists :: "disk \<Rightarrow> string \<Rightarrow> bool" where
  "app_dir_exists d a = (app_dir_of d a \<noteq> None)"

definition db_dir_exists :: "disk \<Rightarrow> string \<Rightarrow> string \<Rightarrow> bool" where
  "db_dir_exists d a b = (db_dir_of d a b \<noteq> None)"

definition applications_file :: "disk \<Rightarrow> (Application list \<times> Token list) option" where
  "applications_file d = (case d of None \<Rightarrow> None | Some r \<Rightarrow> applications_json r)"

definition db_map_file :: "disk \<Rightarrow> string \<Rightarrow> (string \<times> Database) list option" where
  "db_map_file d a = (case app_dir_of d a of None \<Rightarrow> None | Some ad \<Rightarrow> db_map_json ad)"

definition document_map_file :: "disk \<Rightarrow> string \<Rightarrow> string \<Rightarrow> (string \<times> string) list option" where
  "document_map_file d a b =
     (case db_dir_of d a b of None \<Rightarrow> None | Some bd \<Rightarrow> document_map_json bd)"

definition document_file :: "disk \<Rightarrow> string \<Rightarrow> string \<Rightarrow> string \<Rightarrow> string option" where
  "document_file d a b doc =
     (case db_dir_of d a b of None \<Rightarrow> None | Some bd \<Rightarrow> document_files bd doc)"

subsection \<open>Changing the tree\<close>

text \<open>
  \<open>put_app_dir\<close> and \<open>put_db_dir\<close> set or remove one directory of the tree, and create
  the parents that are missing, as \<^verbatim>\<open>mkdir(parents=True)\<close> does. The \<open>put\<close> functions
  for files change a file in a directory that exists and leave a disk without the
  directory as it is; the operations below call them after the check that raises.
\<close>

definition put_app_dir :: "disk \<Rightarrow> string \<Rightarrow> app_dir option \<Rightarrow> disk" where
  "put_app_dir d a x = Some ((root_of d)\<lparr>app_dirs := (app_dirs (root_of d))(a := x)\<rparr>)"

definition put_db_dir :: "disk \<Rightarrow> string \<Rightarrow> string \<Rightarrow> db_dir option \<Rightarrow> disk" where
  "put_db_dir d a b x =
     (let ad = (case app_dir_of d a of None \<Rightarrow> empty_app_dir | Some ad \<Rightarrow> ad)
      in put_app_dir d a (Some (ad\<lparr>db_dirs := (db_dirs ad)(b := x)\<rparr>)))"

definition put_applications_file :: "disk \<Rightarrow> Application list \<times> Token list \<Rightarrow> disk" where
  "put_applications_file d v =
     (case d of None \<Rightarrow> None | Some r \<Rightarrow> Some (r\<lparr>applications_json := Some v\<rparr>))"

definition put_db_map_file :: "disk \<Rightarrow> string \<Rightarrow> (string \<times> Database) list \<Rightarrow> disk" where
  "put_db_map_file d a v =
     (case app_dir_of d a of
        None \<Rightarrow> d
      | Some ad \<Rightarrow> put_app_dir d a (Some (ad\<lparr>db_map_json := Some v\<rparr>)))"

definition put_document_map_file ::
  "disk \<Rightarrow> string \<Rightarrow> string \<Rightarrow> (string \<times> string) list \<Rightarrow> disk" where
  "put_document_map_file d a b v =
     (case db_dir_of d a b of
        None \<Rightarrow> d
      | Some bd \<Rightarrow> put_db_dir d a b (Some (bd\<lparr>document_map_json := Some v\<rparr>)))"

definition put_document_file :: "disk \<Rightarrow> string \<Rightarrow> string \<Rightarrow> string \<Rightarrow> string option \<Rightarrow> disk" where
  "put_document_file d a b doc x =
     (case db_dir_of d a b of
        None \<Rightarrow> d
      | Some bd \<Rightarrow> put_db_dir d a b (Some (bd\<lparr>document_files := (document_files bd)(doc := x)\<rparr>)))"

subsection \<open>\<^verbatim>\<open>Path.mkdir(parents=True)\<close>\<close>

text \<open>
  The code calls \<^verbatim>\<open>mkdir\<close> only under \<^verbatim>\<open>if not path.exists()\<close>; the functions below
  give the disk after the call on a path that does not exist: the new directory is empty,
  and a missing parent is created empty, an existing one is kept.
\<close>

definition mkdir_hippo_dir :: "disk \<Rightarrow> disk" where
  "mkdir_hippo_dir d = Some empty_hippo_dir"

definition mkdir_app_dir :: "disk \<Rightarrow> string \<Rightarrow> disk" where
  "mkdir_app_dir d a = put_app_dir d a (Some empty_app_dir)"

definition mkdir_db_dir :: "disk \<Rightarrow> string \<Rightarrow> string \<Rightarrow> disk" where
  "mkdir_db_dir d a b = put_db_dir d a b (Some empty_db_dir)"

subsection \<open>Writing, reading and removing\<close>

text \<open>
  A write into a directory that does not exist, a read or \<^verbatim>\<open>unlink\<close> of a file that
  does not exist and \<^verbatim>\<open>shutil.rmtree\<close> of a directory that does not exist raise
  \<^verbatim>\<open>FileNotFoundError\<close>. \<^verbatim>\<open>rmtree\<close> removes the directory with all it holds.
\<close>

definition write_applications_json :: "disk \<Rightarrow> Application list \<times> Token list \<Rightarrow> error + disk" where
  "write_applications_json d v =
     (if hippo_dir_exists d then Inr (put_applications_file d v) else Inl FileNotFoundError)"

definition read_applications_json :: "disk \<Rightarrow> error + Application list \<times> Token list" where
  "read_applications_json d =
     (case applications_file d of None \<Rightarrow> Inl FileNotFoundError | Some v \<Rightarrow> Inr v)"

definition write_db_map :: "disk \<Rightarrow> string \<Rightarrow> (string \<times> Database) list \<Rightarrow> error + disk" where
  "write_db_map d a v =
     (if app_dir_exists d a then Inr (put_db_map_file d a v) else Inl FileNotFoundError)"

definition read_db_map :: "disk \<Rightarrow> string \<Rightarrow> error + (string \<times> Database) list" where
  "read_db_map d a =
     (case db_map_file d a of None \<Rightarrow> Inl FileNotFoundError | Some v \<Rightarrow> Inr v)"

definition write_document_map ::
  "disk \<Rightarrow> string \<Rightarrow> string \<Rightarrow> (string \<times> string) list \<Rightarrow> error + disk" where
  "write_document_map d a b v =
     (if db_dir_exists d a b then Inr (put_document_map_file d a b v)
      else Inl FileNotFoundError)"

definition read_document_map :: "disk \<Rightarrow> string \<Rightarrow> string \<Rightarrow> error + (string \<times> string) list" where
  "read_document_map d a b =
     (case document_map_file d a b of None \<Rightarrow> Inl FileNotFoundError | Some v \<Rightarrow> Inr v)"

text \<open>
  \<^verbatim>\<open>Path.read_text\<close> opens the file in text mode with universal newlines: every
  \<^verbatim>\<open>\r\n\<close> and every other \<^verbatim>\<open>\r\<close> of the file is returned as \<^verbatim>\<open>\n\<close>.
  \<^verbatim>\<open>Path.write_text\<close> writes \<^verbatim>\<open>\n\<close> as the line separator of the platform, which is
  \<^verbatim>\<open>\n\<close> itself on POSIX, and every other character as it is.
\<close>

fun universal_newlines :: "string \<Rightarrow> string" where
  "universal_newlines [] = []"
| "universal_newlines [c] = (if c = CHR 0x0D then [CHR 0x0A] else [c])"
| "universal_newlines (c # c' # cs) =
     (if c = CHR 0x0D \<and> c' = CHR 0x0A then CHR 0x0A # universal_newlines cs
      else if c = CHR 0x0D then CHR 0x0A # universal_newlines (c' # cs)
      else c # universal_newlines (c' # cs))"

definition write_text :: "disk \<Rightarrow> string \<Rightarrow> string \<Rightarrow> string \<Rightarrow> string \<Rightarrow> error + disk" where
  "write_text d a b doc contents =
     (if db_dir_exists d a b then Inr (put_document_file d a b doc (Some contents))
      else Inl FileNotFoundError)"

definition read_text :: "disk \<Rightarrow> string \<Rightarrow> string \<Rightarrow> string \<Rightarrow> error + string" where
  "read_text d a b doc =
     (case document_file d a b doc of
        None \<Rightarrow> Inl FileNotFoundError
      | Some bytes \<Rightarrow> Inr (universal_newlines bytes))"

definition unlink :: "disk \<Rightarrow> string \<Rightarrow> string \<Rightarrow> string \<Rightarrow> error + disk" where
  "unlink d a b doc =
     (if document_file d a b doc \<noteq> None then Inr (put_document_file d a b doc None)
      else Inl FileNotFoundError)"

definition rmtree_db_dir :: "disk \<Rightarrow> string \<Rightarrow> string \<Rightarrow> error + disk" where
  "rmtree_db_dir d a b =
     (if db_dir_exists d a b then Inr (put_db_dir d a b None) else Inl FileNotFoundError)"

definition rmtree_app_dir :: "disk \<Rightarrow> string \<Rightarrow> error + disk" where
  "rmtree_app_dir d a =
     (if app_dir_exists d a then Inr (put_app_dir d a None) else Inl FileNotFoundError)"

section \<open>The store (class HippoDB)\<close>

text \<open>
  The state of a \<^verbatim>\<open>HippoDB\<close> object: its four dictionaries and the disk under
  \<^verbatim>\<open>self.hippo_dir\<close>.
\<close>

record HippoDB =
  applications :: "(string, Application) dict"
  tokens :: "(string, Token) dict"
  databases :: "(string, DBMap) dict"
  documents :: "(string, (string, DocumentMap) dict) dict"
  disk :: disk

text \<open>
  A method is a function from the state to its result and the state it leaves. An
  exception is the result \<open>Inl e\<close>, with the state as it was when the exception was raised:
  what the method changed before stays changed.
\<close>

type_synonym 'a action = "HippoDB \<Rightarrow> (error + 'a) \<times> HippoDB"

definition ok :: "'a \<Rightarrow> 'a action" where
  "ok x s = (Inr x, s)"

definition then_do :: "'a action \<Rightarrow> ('a \<Rightarrow> 'b action) \<Rightarrow> 'b action" where
  "then_do m f s = (case m s of (Inl e, s') \<Rightarrow> (Inl e, s') | (Inr x, s') \<Rightarrow> f x s')"

definition query :: "(HippoDB \<Rightarrow> error + 'a) \<Rightarrow> 'a action" where
  "query g s = (g s, s)"

definition assign :: "(HippoDB \<Rightarrow> HippoDB) \<Rightarrow> unit action" where
  "assign f s = (Inr (), f s)"

definition on_disk :: "(disk \<Rightarrow> error + disk) \<Rightarrow> unit action" where
  "on_disk g s = (case g (disk s) of Inl e \<Rightarrow> (Inl e, s) | Inr d \<Rightarrow> (Inr (), s\<lparr>disk := d\<rparr>))"

subsection \<open>Saving the side-car files (hippo.py, lines 245-285)\<close>

definition save_applications_file :: "unit action" where
  "save_applications_file =
     then_do (query (\<lambda>s. Inr (map snd (applications s), map snd (tokens s)))) (\<lambda>v.
     on_disk (\<lambda>d. write_applications_json d v))"

definition save_db_map :: "string \<Rightarrow> unit action" where
  "save_db_map application =
     then_do (on_disk (\<lambda>d. Inr (if \<not> app_dir_exists d application
                                 then mkdir_app_dir d application else d))) (\<lambda>_.
     then_do (query (\<lambda>s. getitem (databases s) application)) (\<lambda>dbs.
     on_disk (\<lambda>d. write_db_map d application
                     (dict (map (\<lambda>db. (Database_id db, db)) (map snd dbs))))))"

definition save_document_map :: "string \<Rightarrow> string \<Rightarrow> unit action" where
  "save_document_map application database =
     then_do (on_disk (\<lambda>d. Inr (if \<not> db_dir_exists d application database
                                 then mkdir_db_dir d application database else d))) (\<lambda>_.
     then_do (query (\<lambda>s. getitem (documents s) application)) (\<lambda>dbs.
     then_do (query (\<lambda>s. getitem dbs database)) (\<lambda>docs.
     on_disk (\<lambda>d. write_document_map d application database docs))))"

subsection \<open>The operations (hippo.py, lines 50-142)\<close>

text \<open>
  Every call of \<^verbatim>\<open>uuid4\<close> is an argument of the operation that makes it, in the order of
  the calls: the results below hold for whatever identifier is drawn.
\<close>

definition create_token :: "string \<Rightarrow> string \<Rightarrow> bool \<Rightarrow> Token action" where
  "create_token uuid application writeable =
     (let token_id = uuid in
      then_do (assign (\<lambda>s. s\<lparr>tokens :=
                 AList.update token_id (Token token_id application writeable) (tokens s)\<rparr>)) (\<lambda>_.
      then_do save_applications_file (\<lambda>_.
      query (\<lambda>s. getitem (tokens s) token_id))))"

definition create_database :: "string \<Rightarrow> string \<Rightarrow> string \<Rightarrow> Database action" where
  "create_database uuid application path =
     (let db_id = uuid in
      then_do (query (\<lambda>s. getitem (databases s) application)) (\<lambda>dbs.
      then_do (assign (\<lambda>s. s\<lparr>databases :=
                 AList.update application
                   (AList.update path (Database db_id application path) dbs) (databases s)\<rparr>)) (\<lambda>_.
      then_do (query (\<lambda>s. getitem (documents s) application)) (\<lambda>docs.
      then_do (assign (\<lambda>s. s\<lparr>documents :=
                 AList.update application (AList.update db_id [] docs) (documents s)\<rparr>)) (\<lambda>_.
      then_do (save_db_map application) (\<lambda>_.
      then_do (save_document_map application db_id) (\<lambda>_.
      then_do (query (\<lambda>s. getitem (databases s) application)) (\<lambda>dbs'.
      query (\<lambda>s. getitem dbs' path)))))))))"

definition create_application :: "string \<Rightarrow> string \<Rightarrow> string \<Rightarrow> Application action" where
  "create_application uuid uuid' name =
     (let app_id = uuid in
      then_do (assign (\<lambda>s. s\<lparr>applications :=
                 AList.update app_id (Application app_id name) (applications s)\<rparr>)) (\<lambda>_.
      then_do (assign (\<lambda>s. s\<lparr>databases := AList.update app_id [] (databases s)\<rparr>)) (\<lambda>_.
      then_do (assign (\<lambda>s. s\<lparr>documents := AList.update app_id [] (documents s)\<rparr>)) (\<lambda>_.
      then_do save_applications_file (\<lambda>_.
      then_do (create_database uuid' app_id ''/'') (\<lambda>_.
      query (\<lambda>s. getitem (applications s) app_id)))))))"

definition update_document :: "string \<Rightarrow> string \<Rightarrow> string \<Rightarrow> string \<Rightarrow> string \<Rightarrow> unit action" where
  "update_document uuid application database document_name contents =
     then_do (query (\<lambda>s. getitem (documents s) application)) (\<lambda>dbs.
     then_do (query (\<lambda>s. getitem dbs database)) (\<lambda>docs.
     then_do
       (if map_of docs document_name = None
        then
          (let document_id = uuid in
           then_do (assign (\<lambda>s. s\<lparr>documents :=
                      AList.update application
                        (AList.update database
                           (AList.update document_name document_id docs) dbs) (documents s)\<rparr>)) (\<lambda>_.
           then_do (save_document_map application database) (\<lambda>_.
           ok document_id)))
        else query (\<lambda>s. getitem docs document_name)) (\<lambda>document_id.
     on_disk (\<lambda>d. write_text d application database document_id contents))))"

definition read_document :: "string \<Rightarrow> string \<Rightarrow> string \<Rightarrow> string action" where
  "read_document application database document_name =
     then_do (query (\<lambda>s. getitem (documents s) application)) (\<lambda>dbs.
     then_do (query (\<lambda>s. getitem dbs database)) (\<lambda>docs.
     then_do (query (\<lambda>s. getitem docs document_name)) (\<lambda>document_id.
     query (\<lambda>s. read_text (disk s) application database document_id))))"

definition delete_document :: "string \<Rightarrow> string \<Rightarrow> string \<Rightarrow> string action" where
  "delete_document application database document_name =
     then_do (query (\<lambda>s. getitem (documents s) application)) (\<lambda>dbs.
     then_do (query (\<lambda>s. getitem dbs database)) (\<lambda>docs.
     then_do (query (\<lambda>s. getitem docs document_name)) (\<lambda>document_id.
     then_do (query (\<lambda>s. read_text (disk s) application database document_id)) (\<lambda>contents.
     then_do (on_disk (\<lambda>d. unlink d application database document_id)) (\<lambda>_.
     then_do (save_document_map application database) (\<lambda>_.
     ok contents))))))"

definition delete_database :: "string \<Rightarrow> string \<Rightarrow> unit action" where
  "delete_database application database =
     then_do (query (\<lambda>s. getitem (databases s) application)) (\<lambda>dbs.
     then_do (query (\<lambda>s. delitem dbs database)) (\<lambda>dbs'.
     then_do (assign (\<lambda>s. s\<lparr>databases := AList.update application dbs' (databases s)\<rparr>)) (\<lambda>_.
     then_do (query (\<lambda>s. getitem (documents s) application)) (\<lambda>docs.
     then_do (query (\<lambda>s. delitem docs database)) (\<lambda>docs'.
     then_do (assign (\<lambda>s. s\<lparr>documents := AList.update application docs' (documents s)\<rparr>)) (\<lambda>_.
     then_do (on_disk (\<lambda>d. rmtree_db_dir d application database)) (\<lambda>_.
     save_db_map application)))))))"

text \<open>The loop \<^verbatim>\<open>for token_id in tokens: del self.tokens[token_id]\<close>.\<close>

fun del_tokens :: "string list \<Rightarrow> unit action" where
  "del_tokens [] s = ok () s"
| "del_tokens (token_id # rest) s =
     then_do (query (\<lambda>s. delitem (tokens s) token_id)) (\<lambda>tokens'.
     then_do (assign (\<lambda>s. s\<lparr>tokens := tokens'\<rparr>)) (\<lambda>_.
     del_tokens rest)) s"

definition delete_application :: "string \<Rightarrow> unit action" where
  "delete_application application =
     then_do (query (\<lambda>s. delitem (databases s) application)) (\<lambda>databases'.
     then_do (assign (\<lambda>s. s\<lparr>databases := databases'\<rparr>)) (\<lambda>_.
     then_do (query (\<lambda>s. delitem (documents s) application)) (\<lambda>documents'.
     then_do (assign (\<lambda>s. s\<lparr>documents := documents'\<rparr>)) (\<lambda>_.
     then_do (query (\<lambda>s. delitem (applications s) application)) (\<lambda>applications'.
     then_do (assign (\<lambda>s. s\<lparr>applications := applications'\<rparr>)) (\<lambda>_.
     then_do (query (\<lambda>s. Inr (map fst
                (filter (\<lambda>item. Token_application (snd item) = application) (tokens s))))) (\<lambda>tokens'.
     then_do (del_tokens tokens') (\<lambda>_.
     then_do (on_disk (\<lambda>d. rmtree_app_dir d application)) (\<lambda>_.
     save_applications_file)))))))))"

definition delete_token :: "string \<Rightarrow> unit action" where
  "delete_token token =
     then_do (query (\<lambda>s. delitem (tokens s) token)) (\<lambda>tokens'.
     then_do (assign (\<lambda>s. s\<lparr>tokens := tokens'\<rparr>)) (\<lambda>_.
     save_applications_file))"

subsection \<open>Loading (hippo.py, lines 41-48 and 144-231)\<close>

definition load_applications_file :: "unit action" where
  "load_applications_file =
     then_do (on_disk (\<lambda>d. Inr (if \<not> hippo_dir_exists d then mkdir_hippo_dir d else d))) (\<lambda>_.
     then_do (query (\<lambda>s. Inr (applications_file (disk s) \<noteq> None))) (\<lambda>present.
     if \<not> present then save_applications_file
     else
       then_do (query (\<lambda>s. read_applications_json (disk s))) (\<lambda>data.
       then_do (assign (\<lambda>s. s\<lparr>applications :=
                  dict (map (\<lambda>value. (Application_id value, value)) (fst data))\<rparr>)) (\<lambda>_.
       assign (\<lambda>s. s\<lparr>tokens :=
                  dict (map (\<lambda>value. (Token_id value, value)) (snd data))\<rparr>)))))"

text \<open>
  The loop \<^verbatim>\<open>for db in ...: self.databases[application][db.path] = db\<close> of
  \<^verbatim>\<open>load_db_map\<close>.
\<close>

fun load_dbs :: "string \<Rightarrow> Database list \<Rightarrow> unit action" where
  "load_dbs application [] s = ok () s"
| "load_dbs application (db # rest) s =
     then_do (query (\<lambda>s. getitem (databases s) application)) (\<lambda>dbs.
     then_do (assign (\<lambda>s. s\<lparr>databases :=
                AList.update application (AList.update (Database_path db) db dbs) (databases s)\<rparr>)) (\<lambda>_.
     load_dbs application rest)) s"

definition load_db_map :: "string \<Rightarrow> unit action" where
  "load_db_map application =
     then_do (on_disk (\<lambda>d. Inr (if \<not> app_dir_exists d application
                                 then mkdir_app_dir d application else d))) (\<lambda>_.
     then_do (assign (\<lambda>s. s\<lparr>databases := setdefault (databases s) application []\<rparr>)) (\<lambda>_.
     then_do (assign (\<lambda>s. s\<lparr>documents := setdefault (documents s) application []\<rparr>)) (\<lambda>_.
     then_do (query (\<lambda>s. Inr (db_map_file (disk s) application \<noteq> None))) (\<lambda>present.
     if \<not> present then save_db_map application
     else
       then_do (query (\<lambda>s. read_db_map (disk s) application)) (\<lambda>data.
       load_dbs application (map snd (dict data)))))))"

definition load_document_map :: "string \<Rightarrow> string \<Rightarrow> unit action" where
  "load_document_map application database =
     then_do (on_disk (\<lambda>d. Inr (if \<not> db_dir_exists d application database
                                 then mkdir_db_dir d application database else d))) (\<lambda>_.
     then_do (assign (\<lambda>s. s\<lparr>documents := setdefault (documents s) application []\<rparr>)) (\<lambda>_.
     then_do (query (\<lambda>s. Inr (document_map_file (disk s) application database \<noteq> None))) (\<lambda>present.
     if \<not> present
     then
       then_do (query (\<lambda>s. getitem (documents s) application)) (\<lambda>dbs.
       then_do (assign (\<lambda>s. s\<lparr>documents :=
                  AList.update application (AList.update database [] dbs) (documents s)\<rparr>)) (\<lambda>_.
       save_document_map application database))
     else
       then_do (query (\<lambda>s. read_document_map (disk s) application database)) (\<lambda>data.
       then_do (query (\<lambda>s. getitem (documents s) application)) (\<lambda>dbs.
       assign (\<lambda>s. s\<lparr>documents :=
                  AList.update application (AList.update database (dict data) dbs) (documents s)\<rparr>))))))"

text \<open>
  The two loops of \<^verbatim>\<open>load\<close>. Neither body changes the dictionary its loop runs over
  (\<^verbatim>\<open>self.applications\<close>, and \<^verbatim>\<open>self.databases[application]\<close>), so each loop runs over
  the keys, or values, read when it starts.
\<close>

fun load_document_maps :: "string \<Rightarrow> Database list \<Rightarrow> unit action" where
  "load_document_maps application [] s = ok () s"
| "load_document_maps application (database # rest) s =
     then_do (load_document_map application (Database_id database)) (\<lambda>_.
     load_document_maps application rest) s"

fun load_applications :: "string list \<Rightarrow> unit action" where
  "load_applications [] s = ok () s"
| "load_applications (application # rest) s =
     then_do (load_db_map application) (\<lambda>_.
     then_do (query (\<lambda>s. getitem (databases s) application)) (\<lambda>dbs.
     then_do (load_document_maps application (map snd dbs)) (\<lambda>_.
     load_applications rest))) s"

definition load :: "unit action" where
  "load =
     then_do load_applications_file (\<lambda>_.
     then_do (query (\<lambda>s. Inr (map fst (applications s)))) (\<lambda>apps.
     load_applications apps))"

text \<open>\<^verbatim>\<open>HippoDB()\<close> on a disk: four empty dictionaries, then \<^verbatim>\<open>load\<close>.\<close>

definition new_HippoDB :: "disk \<Rightarrow> (error + unit) \<times> HippoDB" where
  "new_HippoDB d =
     load \<lparr>applications = [], tokens = [], databases = [], documents = [], disk = d\<rparr>"

section \<open>The database routes of api.py\<close>

text \<open>
  \<^verbatim>\<open>urllib.parse.unquote\<close> is a library function: the routes take it as the argument
  \<open>unquote\<close>. The credentials are resolved before a route runs; a route takes the
  application id \<^verbatim>\<open>app_view.app_id\<close> they resolve to.
\<close>

definition startswith :: "string \<Rightarrow> string \<Rightarrow> bool" where
  "startswith s p = (take (length p) s = p)"

definition process_db_name :: "(string \<Rightarrow> string) \<Rightarrow> string \<Rightarrow> string" where
  "process_db_name unquote name =
     (let name = unquote name
      in if \<not> startswith name ''/'' then ''/'' @ name else name)"

datatype DatabaseInfo = DatabaseInfo (DatabaseInfo_path: string)

definition list_databases ::
  "(string \<Rightarrow> string) \<Rightarrow> string \<Rightarrow> string \<Rightarrow> bool \<Rightarrow> DatabaseInfo list action" where
  "list_databases unquote app_id db_name recursive =
     (let db_name = process_db_name unquote db_name in
      then_do (query (\<lambda>s. getitem (databases s) app_id)) (\<lambda>app_dbs.
      let dbs = map (\<lambda>db. DatabaseInfo (Database_path db))
                  (filter (\<lambda>db. startswith (Database_path db) db_name) (map snd app_dbs))
      in ok (if \<not> recursive
             then (let query_length = length db_name
                   in filter (\<lambda>db. count_list (drop query_length (DatabaseInfo_path db))
                                      CHR ''/'' = 0) dbs)
             else dbs)))"

definition api_delete_database :: "(string \<Rightarrow> string) \<Rightarrow> string \<Rightarrow> string \<Rightarrow> unit action" where
  "api_delete_database unquote app_id db_name =
     (let db_name = process_db_name unquote db_name in
      then_do (query (\<lambda>s. getitem (databases s) app_id)) (\<lambda>app_dbs.
      then_do (query (\<lambda>s. getitem app_dbs db_name)) (\<lambda>db.
      delete_database app_id (Database_id db))))"

section \<open>Reachable states\<close>

text \<open>
  The operations of the store with their arguments, and the state each leaves, whether
  it returns or raises.
\<close>

datatype operation =
    CreateToken string string bool
  | CreateApplication string string string
  | CreateDatabase string string string
  | UpdateDocument string string string string string
  | ReadDocument string string string
  | DeleteDocument string string string
  | DeleteDatabase string string
  | DeleteApplication string
  | DeleteToken string

fun exec :: "operation \<Rightarrow> HippoDB \<Rightarrow> HippoDB" where
  "exec (CreateToken uuid application writeable) s =
     snd (create_token uuid application writeable s)"
| "exec (CreateApplication uuid uuid' name) s = snd (create_application uuid uuid' name s)"
| "exec (CreateDatabase uuid application path) s = snd (create_database uuid application path s)"
| "exec (UpdateDocument uuid application database document_name contents) s =
     snd (update_document uuid application database document_name contents s)"
| "exec (ReadDocument application database document_name) s =
     snd (read_document application database document_name s)"
| "exec (DeleteDocument application database document_name) s =
     snd (delete_document application database document_name s)"
| "exec (DeleteDatabase application database) s = snd (delete_database application database s)"
| "exec (DeleteApplication application) s = snd (delete_application application s)"
| "exec (DeleteToken token) s = snd (delete_token token s)"

text \<open>
  A state is reachable when a store constructed on some disk gets to it by operations,
  with any arguments.
\<close>

inductive reachable :: "HippoDB \<Rightarrow> bool" where
  new: "new_HippoDB d = (Inr (), s) \<Longrightarrow> reachable s"
| step: "reachable s \<Longrightarrow> reachable (exec op s)"

section \<open>Properties of a state\<close>

text \<open>The keys of every database map are the paths of the databases stored under them.\<close>

definition path_keyed :: "HippoDB \<Rightarrow> bool" where
  "path_keyed s \<longleftrightarrow>
     (\<forall>a dbs p db. map_of (databases s) a = Some dbs \<longrightarrow> map_of dbs p = Some db \<longrightarrow>
        Database_path db = p)"

text \<open>
  The directories the index needs are on the disk: the store root, the directory of every
  application with a database map, and the directory of every database with a document
  map.
\<close>

definition dirs_exist :: "HippoDB \<Rightarrow> bool" where
  "dirs_exist s \<longleftrightarrow>
     hippo_dir_exists (disk s) \<and>
     (\<forall>a. map_of (databases s) a \<noteq> None \<longrightarrow> app_dir_exists (disk s) a) \<and>
     (\<forall>a dbs b. map_of (documents s) a = Some dbs \<longrightarrow> map_of dbs b \<noteq> None \<longrightarrow>
        db_dir_exists (disk s) a b)"

text \<open>The three dictionaries keyed by application id have the same keys.\<close>

definition scopes_agree :: "HippoDB \<Rightarrow> bool" where
  "scopes_agree s \<longleftrightarrow>
     (\<forall>a. (map_of (databases s) a \<noteq> None) = (map_of (applications s) a \<noteq> None)) \<and>
     (\<forall>a. (map_of (documents s) a \<noteq> None) = (map_of (applications s) a \<noteq> None))"

definition consistent :: "HippoDB \<Rightarrow> bool" where
  "consistent s \<longleftrightarrow> dirs_exist s \<and> scopes_agree s \<and> distinct (map fst (tokens s))"

section \<open>Example stores\<close>

text \<open>
  \<^verbatim>\<open>unquote\<close> returns a string without the escape character \<^verbatim>\<open>%\<close> as it is (the
  first test of its source). The names of the examples have no escape; the examples pass
  \<open>unquote_unescaped\<close> for \<^verbatim>\<open>unquote\<close>.
\<close>

definition unquote_unescaped :: "string \<Rightarrow> string" where
  "unquote_unescaped name = name"

text \<open>
  A store constructed where no store root exists, then one application (with its root
  database), then one document, then a token; and the store of the one application with
  databases at \<^verbatim>\<open>/a\<close>, \<^verbatim>\<open>/a/b\<close> and \<^verbatim>\<open>/a/b/c\<close>.
\<close>

definition store_new :: HippoDB where
  "store_new = snd (new_HippoDB None)"

definition store_app :: HippoDB where
  "store_app = exec (CreateApplication ''app-1'' ''db-1'' ''notes'') store_new"

definition store_doc :: HippoDB where
  "store_doc = exec (UpdateDocument ''doc-1'' ''app-1'' ''db-1'' ''readme'' ''{}'') store_app"

definition store_token :: HippoDB where
  "store_token = exec (CreateToken ''token-1'' ''app-1'' True) store_doc"

definition store_abc :: HippoDB where
  "store_abc =
     exec (CreateDatabase ''db-4'' ''app-1'' ''/a/b/c'')
       (exec (CreateDatabase ''db-3'' ''app-1'' ''/a/b'')
         (exec (CreateDatabase ''db-2'' ''app-1'' ''/a'') store_app))"

section \<open>The disk after a change\<close>

lemmas tree_defs = root_of_def app_dir_of_def db_dir_of_def empty_db_dir_def empty_app_dir_def
  empty_hippo_dir_def put_app_dir_def put_db_dir_def put_applications_file_def put_db_map_file_def
  put_document_map_file_def put_document_file_def mkdir_hippo_dir_def mkdir_app_dir_def
  mkdir_db_dir_def hippo_dir_exists_def app_dir_exists_def db_dir_exists_def applications_file_def
  db_map_file_def document_map_file_def document_file_def Let_def

lemma mkdir_hippo_dir_obs [simp]:
  "hippo_dir_exists (mkdir_hippo_dir d)"
  "applications_file (mkdir_hippo_dir d) = None"
  "\<not> app_dir_exists (mkdir_hippo_dir d) a'"
  "db_map_file (mkdir_hippo_dir d) a' = None"
  "\<not> db_dir_exists (mkdir_hippo_dir d) a' b'"
  "document_map_file (mkdir_hippo_dir d) a' b' = None"
  "document_file (mkdir_hippo_dir d) a' b' doc' = None"
  by (simp_all add: tree_defs)

lemma mkdir_app_dir_obs [simp]:
  "hippo_dir_exists (mkdir_app_dir d a)"
  "applications_file (mkdir_app_dir d a) = applications_file d"
  "app_dir_exists (mkdir_app_dir d a) a' = (a' = a \<or> app_dir_exists d a')"
  "db_map_file (mkdir_app_dir d a) a' = (if a' = a then None else db_map_file d a')"
  "db_dir_exists (mkdir_app_dir d a) a' b' = (a' \<noteq> a \<and> db_dir_exists d a' b')"
  "document_map_file (mkdir_app_dir d a) a' b' =
     (if a' = a then None else document_map_file d a' b')"
  "document_file (mkdir_app_dir d a) a' b' doc' =
     (if a' = a then None else document_file d a' b' doc')"
  by (auto simp: tree_defs split: option.splits)

lemma rmtree_app_dir_obs [simp]:
  "hippo_dir_exists (put_app_dir d a None)"
  "applications_file (put_app_dir d a None) = applications_file d"
  "app_dir_exists (put_app_dir d a None) a' = (a' \<noteq> a \<and> app_dir_exists d a')"
  "db_map_file (put_app_dir d a None) a' = (if a' = a then None else db_map_file d a')"
  "db_dir_exists (put_app_dir d a None) a' b' = (a' \<noteq> a \<and> db_dir_exists d a' b')"
  "document_map_file (put_app_dir d a None) a' b' =
     (if a' = a then None else document_map_file d a' b')"
  "document_file (put_app_dir d a None) a' b' doc' =
     (if a' = a then None else document_file d a' b' doc')"
  by (auto simp: tree_defs split: option.splits)

lemma mkdir_db_dir_obs [simp]:
  "hippo_dir_exists (mkdir_db_dir d a b)"
  "applications_file (mkdir_db_dir d a b) = applications_file d"
  "app_dir_exists (mkdir_db_dir d a b) a' = (a' = a \<or> app_dir_exists d a')"
  "db_map_file (mkdir_db_dir d a b) a' = db_map_file d a'"
  "db_dir_exists (mkdir_db_dir d a b) a' b' = (a' = a \<and> b' = b \<or> db_dir_exists d a' b')"
  "document_map_file (mkdir_db_dir d a b) a' b' =
     (if a' = a \<and> b' = b then None else document_map_file d a' b')"
  "document_file (mkdir_db_dir d a b) a' b' doc' =
     (if a' = a \<and> b' = b then None else document_file d a' b' doc')"
  by (auto simp: tree_defs split: option.splits)

lemma rmtree_db_dir_obs [simp]:
  "hippo_dir_exists (put_db_dir d a b None)"
  "applications_file (put_db_dir d a b None) = applications_file d"
  "app_dir_exists (put_db_dir d a b None) a' = (a' = a \<or> app_dir_exists d a')"
  "db_map_file (put_db_dir d a b None) a' = db_map_file d a'"
  "db_dir_exists (put_db_dir d a b None) a' b' =
     ((a' \<noteq> a \<or> b' \<noteq> b) \<and> db_dir_exists d a' b')"
  "document_map_file (put_db_dir d a b None) a' b' =
     (if a' = a \<and> b' = b then None else document_map_file d a' b')"
  "document_file (put_db_dir d a b None) a' b' doc' =
     (if a' = a \<and> b' = b then None else document_file d a' b' doc')"
  by (auto simp: tree_defs split: option.splits)

lemma put_applications_file_obs [simp]:
  "hippo_dir_exists (put_applications_file d v) = hippo_dir_exists d"
  "applications_file (put_applications_file d v) = (if hippo_dir_exists d then Some v else None)"
  "app_dir_exists (put_applications_file d v) a' = app_dir_exists d a'"
  "db_map_file (put_applications_file d v) a' = db_map_file d a'"
  "db_dir_exists (put_applications_file d v) a' b' = db_dir_exists d a' b'"
  "document_map_file (put_applications_file d v) a' b' = document_map_file d a' b'"
  "document_file (put_applications_file d v) a' b' doc' = document_file d a' b' doc'"
  by (auto simp: tree_defs split: option.splits)

lemma put_db_map_file_obs [simp]:
  "hippo_dir_exists (put_db_map_file d a w) = hippo_dir_exists d"
  "applications_file (put_db_map_file d a w) = applications_file d"
  "app_dir_exists (put_db_map_file d a w) a' = app_dir_exists d a'"
  "db_map_file (put_db_map_file d a w) a' =
     (if a' = a \<and> app_dir_exists d a then Some w else db_map_file d a')"
  "db_dir_exists (put_db_map_file d a w) a' b' = db_dir_exists d a' b'"
  "document_map_file (put_db_map_file d a w) a' b' = document_map_file d a' b'"
  "document_file (put_db_map_file d a w) a' b' doc' = document_file d a' b' doc'"
  by (auto simp: tree_defs split: option.splits)

lemma put_document_map_file_obs [simp]:
  "hippo_dir_exists (put_document_map_file d a b m) = hippo_dir_exists d"
  "applications_file (put_document_map_file d a b m) = applications_file d"
  "app_dir_exists (put_document_map_file d a b m) a' = app_dir_exists d a'"
  "db_map_file (put_document_map_file d a b m) a' = db_map_file d a'"
  "db_dir_exists (put_document_map_file d a b m) a' b' = db_dir_exists d a' b'"
  "document_map_file (put_document_map_file d a b m) a' b' =
     (if a' = a \<and> b' = b \<and> db_dir_exists d a b then Some m else document_map_file d a' b')"
  "document_file (put_document_map_file d a b m) a' b' doc' = document_file d a' b' doc'"
  by (auto simp: tree_defs split: option.splits)

lemma put_document_file_obs [simp]:
  "hippo_dir_exists (put_document_file d a b doc x) = hippo_dir_exists d"
  "applications_file (put_document_file d a b doc x) = applications_file d"
  "app_dir_exists (put_document_file d a b doc x) a' = app_dir_exists d a'"
  "db_map_file (put_document_file d a b doc x) a' = db_map_file d a'"
  "db_dir_exists (put_document_file d a b doc x) a' b' = db_dir_exists d a' b'"
  "document_map_file (put_document_file d a b doc x) a' b' = document_map_file d a' b'"
  "document_file (put_document_file d a b doc x) a' b' doc' =
     (if a' = a \<and> b' = b \<and> doc' = doc \<and> db_dir_exists d a b then x
      else document_file d a' b' doc')"
  by (auto simp: tree_defs split: option.splits)

lemma no_disk_obs [simp]:
  "\<not> hippo_dir_exists None"
  "applications_file None = None"
  "\<not> app_dir_exists None a"
  "db_map_file None a = None"
  "\<not> db_dir_exists None a b"
  "document_map_file None a b = None"
  "document_file None a b doc = None"
  by (simp_all add: tree_defs)

lemma exists_parent:
  "db_dir_exists d a b \<Longrightarrow> app_dir_exists d a"
  "app_dir_exists d a \<Longrightarrow> hippo_dir_exists d"
  "applications_file d = Some v \<Longrightarrow> hippo_dir_exists d"
  "db_map_file d a = Some w \<Longrightarrow> app_dir_exists d a"
  "document_map_file d a b = Some m \<Longrightarrow> db_dir_exists d a b"
  "document_file d a b doc = Some c \<Longrightarrow> db_dir_exists d a b"
  by (auto simp: tree_defs split: option.splits)

section \<open>Unfolding the operations\<close>

lemmas action_defs = Let_def ok_def then_do_def query_def assign_def on_disk_def

lemmas dict_defs = getitem_def delitem_def setdefault_def

lemmas prim_defs = write_applications_json_def read_applications_json_def write_db_map_def
  read_db_map_def write_document_map_def read_document_map_def write_text_def read_text_def
  unlink_def rmtree_db_dir_def rmtree_app_dir_def

lemmas save_defs = save_applications_file_def save_db_map_def save_document_map_def

lemmas op_defs = create_token_def create_database_def create_application_def update_document_def
  read_document_def delete_document_def delete_database_def delete_application_def delete_token_def

lemmas load_defs = load_applications_file_def load_db_map_def load_document_map_def load_def
  new_HippoDB_def

lemma map_of_delete [simp]: "map_of (AList.delete k d) = (map_of d)(k := None)"
  by (simp add: delete_conv')

lemma map_of_update [simp]: "map_of (AList.update k v d) = (map_of d)(k \<mapsto> v)"
  by (simp add: update_conv')

section \<open>The example stores, computed\<close>

lemma store_new_eq: "new_HippoDB None = (Inr (), store_new)"
  by (simp add: store_new_def load_defs save_defs action_defs dict_defs prim_defs dict_def)

lemma store_new_index:
  "applications store_new = []"
  "tokens store_new = []"
  "databases store_new = []"
  "documents store_new = []"
  "hippo_dir_exists (disk store_new)"
  by (simp_all add: store_new_def load_defs save_defs action_defs dict_defs prim_defs dict_def)

lemma store_app_index:
  "applications store_app = [(''app-1'', Application ''app-1'' ''notes'')]"
  "tokens store_app = []"
  "databases store_app = [(''app-1'', [(''/'', Database ''db-1'' ''app-1'' ''/'')])]"
  "documents store_app = [(''app-1'', [(''db-1'', [])])]"
  "db_dir_exists (disk store_app) ''app-1'' ''db-1''"
  by (simp_all add: store_app_def store_new_index op_defs save_defs action_defs dict_defs
        prim_defs)

lemma store_doc_index:
  "applications store_doc = [(''app-1'', Application ''app-1'' ''notes'')]"
  "tokens store_doc = []"
  "databases store_doc = [(''app-1'', [(''/'', Database ''db-1'' ''app-1'' ''/'')])]"
  "documents store_doc = [(''app-1'', [(''db-1'', [(''readme'', ''doc-1'')])])]"
  "db_dir_exists (disk store_doc) ''app-1'' ''db-1''"
  "document_file (disk store_doc) ''app-1'' ''db-1'' ''doc-1'' = Some ''{}''"
  by (simp_all add: store_doc_def store_app_index op_defs save_defs action_defs dict_defs
        prim_defs)

section \<open>What every operation keeps\<close>

lemma del_tokens_index [simp]:
  "applications (snd (del_tokens ks s)) = applications s"
  "databases (snd (del_tokens ks s)) = databases s"
  "documents (snd (del_tokens ks s)) = documents s"
  "disk (snd (del_tokens ks s)) = disk s"
  by (induction ks arbitrary: s; simp add: action_defs dict_defs split: option.splits)+

lemma del_tokens_frame:
  "del_tokens ks s = (r, s') \<Longrightarrow>
   applications s' = applications s \<and> databases s' = databases s \<and>
   documents s' = documents s \<and> disk s' = disk s"
  using del_tokens_index [of ks s] by simp

lemma del_tokens_distinct:
  "distinct (map fst (tokens s)) \<Longrightarrow> distinct (map fst (tokens (snd (del_tokens ks s))))"
  by (induction ks arbitrary: s) (simp_all add: action_defs dict_defs distinct_delete split: option.splits)

lemma path_keyed_exec: "path_keyed s \<Longrightarrow> path_keyed (exec op s)"
proof (cases op)
  case (DeleteApplication a)
  assume "path_keyed s"
  then show ?thesis unfolding DeleteApplication
    by (auto simp: path_keyed_def op_defs save_defs action_defs dict_defs prim_defs
          split: option.splits sum.splits prod.splits if_splits dest!: del_tokens_frame)
qed (auto simp: path_keyed_def op_defs save_defs action_defs dict_defs prim_defs
      split: option.splits sum.splits if_splits)

lemma dirs_exist_exec: "dirs_exist s \<Longrightarrow> dirs_exist (exec op s)"
proof (cases op)
  case (DeleteApplication a)
  assume "dirs_exist s"
  then show ?thesis unfolding DeleteApplication
    by (auto simp: dirs_exist_def op_defs save_defs action_defs dict_defs prim_defs
          split: option.splits sum.splits prod.splits if_splits dest!: del_tokens_frame)
qed (auto simp: dirs_exist_def op_defs save_defs action_defs dict_defs prim_defs
      split: option.splits sum.splits if_splits)

lemma scopes_agree_exec: "scopes_agree s \<Longrightarrow> scopes_agree (exec op s)"
proof (cases op)
  case (DeleteApplication a)
  assume "scopes_agree s"
  then show ?thesis unfolding DeleteApplication
    by (auto simp: scopes_agree_def op_defs save_defs action_defs dict_defs prim_defs
          split: option.splits sum.splits prod.splits if_splits dest!: del_tokens_frame; metis)
qed (auto simp: scopes_agree_def op_defs save_defs action_defs dict_defs prim_defs
      split: option.splits sum.splits if_splits)

lemma del_tokens_distinct':
  "del_tokens ks s = (r, s') \<Longrightarrow> distinct (map fst (tokens s)) \<Longrightarrow> distinct (map fst (tokens s'))"
  using del_tokens_distinct [of s ks] by simp

lemma tokens_distinct_exec:
  "distinct (map fst (tokens s)) \<Longrightarrow> distinct (map fst (tokens (exec op s)))"
proof (cases op)
  case (DeleteApplication a)
  assume "distinct (map fst (tokens s))"
  then show ?thesis unfolding DeleteApplication
    by (auto simp: op_defs save_defs action_defs dict_defs prim_defs
          split: option.splits sum.splits prod.splits if_splits dest!: del_tokens_distinct')
qed (auto simp: op_defs save_defs action_defs dict_defs prim_defs distinct_update distinct_delete
      split: option.splits sum.splits if_splits)

lemma consistent_exec: "consistent s \<Longrightarrow> consistent (exec op s)"
  by (simp add: consistent_def dirs_exist_exec scopes_agree_exec tokens_distinct_exec)

section \<open>What loading keeps\<close>

lemma distinct_foldl_update:
  "distinct (map fst acc) \<Longrightarrow>
   distinct (map fst (foldl (\<lambda>d kv. AList.update (fst kv) (snd kv) d) acc kvs))"
  by (induction kvs arbitrary: acc) (simp_all add: distinct_update)

lemma distinct_dict [simp]: "distinct (map fst (dict kvs))"
  by (simp add: dict_def distinct_foldl_update)

lemma map_of_setdefault [simp]:
  "(map_of (setdefault d k v) x = None) = (x \<noteq> k \<and> map_of d x = None)"
  by (auto simp: setdefault_def split: option.splits)

lemma map_of_setdefault_other:
  "map_of d x = Some w \<Longrightarrow> map_of (setdefault d k v) x = Some w"
  by (auto simp: setdefault_def split: option.splits)

lemma path_keyed_cong: "databases s' = databases s \<Longrightarrow> path_keyed s' = path_keyed s"
  by (simp add: path_keyed_def)

subsection \<open>The loop of \<^verbatim>\<open>load_db_map\<close>\<close>

lemma load_dbs_frame [simp]:
  "applications (snd (load_dbs a dbs s)) = applications s"
  "tokens (snd (load_dbs a dbs s)) = tokens s"
  "documents (snd (load_dbs a dbs s)) = documents s"
  "disk (snd (load_dbs a dbs s)) = disk s"
  by (induction dbs arbitrary: s; simp add: action_defs dict_defs split: option.splits)+

lemma load_dbs_dom [simp]:
  "(map_of (databases (snd (load_dbs a dbs s))) x = None) = (map_of (databases s) x = None)"
  by (induction dbs arbitrary: s) (auto simp: action_defs dict_defs split: option.splits)

lemma load_dbs_ok:
  "map_of (databases s) a \<noteq> None \<Longrightarrow> fst (load_dbs a dbs s) = Inr ()"
  by (induction dbs arbitrary: s) (auto simp: action_defs dict_defs split: option.splits)

lemma load_dbs_path_keyed:
  "path_keyed s \<Longrightarrow> path_keyed (snd (load_dbs a dbs s))"
proof (induction dbs arbitrary: s)
  case Nil
  then show ?case by (simp add: action_defs)
next
  case (Cons db dbs)
  show ?case
  proof (cases "map_of (databases s) a")
    case None
    with Cons.prems show ?thesis by (simp add: action_defs dict_defs)
  next
    case (Some m)
    let ?s = "s\<lparr>databases := AList.update a (AList.update (Database_path db) db m) (databases s)\<rparr>"
    from Cons.prems Some have "path_keyed ?s"
      by (auto simp: path_keyed_def)
    then have "path_keyed (snd (load_dbs a dbs ?s))" by (rule Cons.IH)
    with Some show ?thesis by (simp add: action_defs dict_defs)
  qed
qed

lemma load_dbs_dirs_exist:
  "dirs_exist s \<Longrightarrow> dirs_exist (snd (load_dbs a dbs s))"
  by (simp add: dirs_exist_def)

subsection \<open>\<^verbatim>\<open>load_db_map\<close>\<close>

lemma load_db_map_frame [simp]:
  "applications (snd (load_db_map a s)) = applications s"
  "tokens (snd (load_db_map a s)) = tokens s"
  by (simp_all add: load_db_map_def save_defs action_defs getitem_def prim_defs
        split: option.splits sum.splits)

lemma load_db_map_dom [simp]:
  "(map_of (databases (snd (load_db_map a s))) x = None) = (x \<noteq> a \<and> map_of (databases s) x = None)"
  "(map_of (documents (snd (load_db_map a s))) x = None) = (x \<noteq> a \<and> map_of (documents s) x = None)"
  by (auto simp: load_db_map_def save_defs action_defs getitem_def prim_defs
        split: option.splits sum.splits)

lemma load_db_map_ok [simp]: "fst (load_db_map a s) = Inr ()"
  by (auto simp: load_db_map_def save_defs action_defs getitem_def prim_defs load_dbs_ok
        split: option.splits sum.splits)

lemma path_keyed_upd [simp]:
  "path_keyed (s\<lparr>applications := x1\<rparr>) = path_keyed s"
  "path_keyed (s\<lparr>tokens := x2\<rparr>) = path_keyed s"
  "path_keyed (s\<lparr>documents := x3\<rparr>) = path_keyed s"
  "path_keyed (s\<lparr>disk := x4\<rparr>) = path_keyed s"
  by (simp_all add: path_keyed_def)

lemma load_db_map_path_keyed:
  "path_keyed s \<Longrightarrow> path_keyed (snd (load_db_map a s))"
proof -
  assume pk: "path_keyed s"
  have 1: "path_keyed (s\<lparr>databases := setdefault (databases s) a []\<rparr>)"
    using pk by (auto simp: path_keyed_def setdefault_def split: option.splits if_splits)
  show ?thesis
    by (auto simp: load_db_map_def save_defs action_defs getitem_def prim_defs 1
          intro!: load_dbs_path_keyed split: option.splits sum.splits)
qed


lemma load_dbs_dom' [simp]:
  "(\<exists>y. map_of (databases (snd (load_dbs a dbs s))) x = Some y) =
     (\<exists>y. map_of (databases s) x = Some y)"
  using load_dbs_dom [of a dbs s x] by (metis not_None_eq)

lemma dirs_exist_parent:
  "dirs_exist s \<Longrightarrow> map_of (documents s) a = Some dbs \<Longrightarrow> map_of dbs b = Some y \<Longrightarrow>
   app_dir_exists (disk s) a"
  by (metis dirs_exist_def exists_parent(1) option.distinct(1))

lemma load_db_map_unfold:
  "load_db_map a s =
     (let s2 = s\<lparr>disk := (if app_dir_exists (disk s) a then disk s else mkdir_app_dir (disk s) a),
                  databases := setdefault (databases s) a [],
                  documents := setdefault (documents s) a []\<rparr>
      in case db_map_file (disk s2) a of
           None \<Rightarrow> save_db_map a s2
         | Some data \<Rightarrow> load_dbs a (map snd (dict data)) s2)"
  by (auto simp: load_db_map_def action_defs prim_defs split: option.splits)

lemma dirs_exist_mkdir_app:
  assumes "dirs_exist s"
  shows "dirs_exist (s\<lparr>disk := (if app_dir_exists (disk s) a then disk s
                                  else mkdir_app_dir (disk s) a),
                 databases := setdefault (databases s) a [],
                 documents := setdefault (documents s) a []\<rparr>)"
  using assms dirs_exist_parent [OF assms, of a] unfolding dirs_exist_def
  by (auto simp: setdefault_def split: option.splits if_splits)

lemma save_db_map_dirs_exist:
  assumes "dirs_exist s"
  shows "dirs_exist (snd (save_db_map a s))"
  using assms dirs_exist_parent [OF assms, of a] unfolding dirs_exist_def
  by (auto simp: save_defs action_defs getitem_def prim_defs
        split: option.splits sum.splits if_splits)

lemma load_db_map_dirs_exist:
  assumes "dirs_exist s"
  shows "dirs_exist (snd (load_db_map a s))"
proof -
  let ?s2 = "s\<lparr>disk := (if app_dir_exists (disk s) a then disk s else mkdir_app_dir (disk s) a),
                 databases := setdefault (databases s) a [],
                 documents := setdefault (documents s) a []\<rparr>"
  have *: "dirs_exist ?s2"
    by (rule dirs_exist_mkdir_app [OF assms])
  show ?thesis
  proof (cases "db_map_file (disk ?s2) a")
    case None
    then have "load_db_map a s = save_db_map a ?s2"
      by (simp only: load_db_map_unfold Let_def option.case)
    with * show ?thesis by (simp only: save_db_map_dirs_exist)
  next
    case (Some data)
    then have "load_db_map a s = load_dbs a (map snd (dict data)) ?s2"
      by (simp only: load_db_map_unfold Let_def option.case)
    with * show ?thesis by (simp only: load_dbs_dirs_exist)
  qed
qed

subsection \<open>\<^verbatim>\<open>load_document_map\<close>\<close>

lemma load_document_map_frame [simp]:
  "applications (snd (load_document_map a b s)) = applications s"
  "tokens (snd (load_document_map a b s)) = tokens s"
  "databases (snd (load_document_map a b s)) = databases s"
  by (auto simp: load_document_map_def save_defs action_defs getitem_def prim_defs
        split: option.splits sum.splits)

lemma load_document_map_dom [simp]:
  "(map_of (documents (snd (load_document_map a b s))) x = None) =
     (x \<noteq> a \<and> map_of (documents s) x = None)"
  by (auto simp: load_document_map_def save_defs action_defs getitem_def prim_defs
        split: option.splits sum.splits)

lemma load_document_map_ok [simp]: "fst (load_document_map a b s) = Inr ()"
  by (auto simp: load_document_map_def save_defs action_defs getitem_def prim_defs
        split: option.splits sum.splits)

lemma load_document_map_dirs_exist:
  assumes "dirs_exist s"
  shows "dirs_exist (snd (load_document_map a b s))"
  using assms dirs_exist_parent [OF assms, of a] unfolding dirs_exist_def
  by (auto simp: load_document_map_def save_defs action_defs getitem_def prim_defs setdefault_def
        split: option.splits sum.splits if_splits)


subsection \<open>The loops of \<^verbatim>\<open>load\<close>\<close>

lemma then_do_Inr: "fst (m s) = Inr x \<Longrightarrow> then_do m f s = f x (snd (m s))"
  by (cases "m s") (simp add: then_do_def)

lemma load_document_maps_Cons:
  "load_document_maps a (db # dbs) s =
     load_document_maps a dbs (snd (load_document_map a (Database_id db) s))"
  by (simp add: then_do_Inr [where x = "()"])

lemma load_document_maps_frame [simp]:
  "applications (snd (load_document_maps a dbs s)) = applications s"
  "tokens (snd (load_document_maps a dbs s)) = tokens s"
  "databases (snd (load_document_maps a dbs s)) = databases s"
  by (induction dbs arbitrary: s;
      simp add: load_document_maps_Cons ok_def del: load_document_maps.simps(2))+

lemma load_document_maps_ok [simp]: "fst (load_document_maps a dbs s) = Inr ()"
  by (induction dbs arbitrary: s)
     (simp_all add: load_document_maps_Cons ok_def del: load_document_maps.simps(2))

lemma load_document_maps_dom [simp]:
  "(map_of (documents (snd (load_document_maps a dbs s))) x = None) =
     ((x \<noteq> a \<or> dbs = []) \<and> map_of (documents s) x = None)"
  by (induction dbs arbitrary: s)
     (auto simp: load_document_maps_Cons ok_def simp del: load_document_maps.simps(2))

lemma load_document_maps_dirs_exist:
  "dirs_exist s \<Longrightarrow> dirs_exist (snd (load_document_maps a dbs s))"
  by (induction dbs arbitrary: s)
     (simp_all add: load_document_maps_Cons ok_def load_document_map_dirs_exist
        del: load_document_maps.simps(2))

lemma load_document_maps_path_keyed:
  "path_keyed (snd (load_document_maps a dbs s)) = path_keyed s"
  by (simp add: path_keyed_def)

lemma query_getitem_Some:
  "map_of (d s) k = Some v \<Longrightarrow> then_do (query (\<lambda>s. getitem (d s) k)) f s = f v s"
  by (simp add: then_do_def query_def getitem_def)

lemma load_applications_Cons:
  "load_applications (a # rest) s =
     (let s1 = snd (load_db_map a s)
      in load_applications rest
           (snd (load_document_maps a (map snd (the (map_of (databases s1) a))) s1)))"
proof -
  let ?s1 = "snd (load_db_map a s)"
  have "map_of (databases ?s1) a \<noteq> None"
    by simp
  then obtain dbs where dbs: "map_of (databases ?s1) a = Some dbs"
    by blast
  have "load_applications (a # rest) s =
          then_do (query (\<lambda>s. getitem (databases s) a)) (\<lambda>dbs.
          then_do (load_document_maps a (map snd dbs)) (\<lambda>_. load_applications rest)) ?s1"
    by (simp only: load_applications.simps then_do_Inr [OF load_db_map_ok])
  also have "\<dots> = then_do (load_document_maps a (map snd dbs)) (\<lambda>_. load_applications rest) ?s1"
    using dbs by (simp add: then_do_def query_def getitem_def)
  also have "\<dots> = load_applications rest (snd (load_document_maps a (map snd dbs) ?s1))"
    by (simp only: then_do_Inr [OF load_document_maps_ok])
  finally show ?thesis
    by (simp only: Let_def dbs option.sel)
qed

lemma load_applications_frame [simp]:
  "applications (snd (load_applications as s)) = applications s"
  "tokens (snd (load_applications as s)) = tokens s"
  by (induction as arbitrary: s;
      simp add: load_applications_Cons ok_def Let_def del: load_applications.simps(2))+

lemma load_applications_ok [simp]: "fst (load_applications as s) = Inr ()"
  by (induction as arbitrary: s)
     (simp_all add: load_applications_Cons ok_def Let_def del: load_applications.simps(2))

lemma load_applications_dom [simp]:
  "(map_of (databases (snd (load_applications as s))) x = None) =
     (x \<notin> set as \<and> map_of (databases s) x = None)"
  "(map_of (documents (snd (load_applications as s))) x = None) =
     (x \<notin> set as \<and> map_of (documents s) x = None)"
  by (induction as arbitrary: s;
      auto simp: load_applications_Cons ok_def Let_def simp del: load_applications.simps(2))+

lemma load_applications_dirs_exist:
  "dirs_exist s \<Longrightarrow> dirs_exist (snd (load_applications as s))"
  by (induction as arbitrary: s)
     (simp_all add: load_applications_Cons ok_def Let_def load_document_maps_dirs_exist
        load_db_map_dirs_exist del: load_applications.simps(2))

lemma load_applications_path_keyed:
  "path_keyed s \<Longrightarrow> path_keyed (snd (load_applications as s))"
  by (induction as arbitrary: s)
     (simp_all add: load_applications_Cons ok_def Let_def load_document_maps_path_keyed
        load_db_map_path_keyed del: load_applications.simps(2))


subsection \<open>\<^verbatim>\<open>load\<close> and the constructor\<close>

lemma load_applications_file_spec [simp]:
  "fst (load_applications_file s) = Inr ()"
  "databases (snd (load_applications_file s)) = databases s"
  "documents (snd (load_applications_file s)) = documents s"
  "hippo_dir_exists (disk (snd (load_applications_file s)))"
  by (auto simp: load_applications_file_def save_defs action_defs prim_defs
        split: option.splits sum.splits dest: exists_parent(3))

lemma load_applications_file_tokens:
  "distinct (map fst (tokens s)) \<Longrightarrow> distinct (map fst (tokens (snd (load_applications_file s))))"
  by (auto simp: load_applications_file_def save_defs action_defs prim_defs
        split: option.splits sum.splits)

lemma load_unfold:
  "load s = load_applications (map fst (applications (snd (load_applications_file s))))
              (snd (load_applications_file s))"
proof -
  have "load s = then_do (query (\<lambda>s. Inr (map fst (applications s)))) load_applications
                   (snd (load_applications_file s))"
    by (simp only: load_def then_do_Inr [OF load_applications_file_spec(1)])
  then show ?thesis
    by (simp add: then_do_def query_def)
qed

lemma load_ok [simp]: "fst (load s) = Inr ()"
  by (simp add: load_unfold)

lemma load_path_keyed:
  assumes "path_keyed s"
  shows "path_keyed (snd (load s))"
proof -
  have "path_keyed (snd (load_applications_file s))"
    using assms by (simp add: path_keyed_def)
  then show ?thesis
    by (simp only: load_unfold load_applications_path_keyed)
qed

lemma in_keys_iff: "(x \<in> fst ` set xs) = (map_of xs x \<noteq> None)"
  by (simp add: map_of_eq_None_iff)

lemma new_HippoDB_ok [simp]: "fst (new_HippoDB d) = Inr ()"
  by (simp add: new_HippoDB_def)

lemma new_HippoDB_path_keyed: "path_keyed (snd (new_HippoDB d))"
  unfolding new_HippoDB_def by (rule load_path_keyed) (simp add: path_keyed_def)

lemma new_HippoDB_consistent: "consistent (snd (new_HippoDB d))"
proof -
  let ?s0 = "\<lparr>applications = [], tokens = [], databases = [], documents = [], disk = d\<rparr>"
  let ?s1 = "snd (load_applications_file ?s0)"
  let ?s = "snd (new_HippoDB d)"
  have s: "?s = snd (load_applications (map fst (applications ?s1)) ?s1)"
    by (simp add: new_HippoDB_def load_unfold)
  have "dirs_exist ?s1"
    by (simp add: dirs_exist_def)
  then have 1: "dirs_exist ?s"
    by (simp only: s load_applications_dirs_exist)
  have 2: "scopes_agree ?s"
    by (simp add: s scopes_agree_def in_keys_iff)
  have "distinct (map fst (tokens ?s1))"
    by (rule load_applications_file_tokens) simp
  then have 3: "distinct (map fst (tokens ?s))"
    by (simp add: s)
  from 1 2 3 show ?thesis
    by (simp add: consistent_def)
qed

lemma reachable_consistent: "reachable s \<Longrightarrow> consistent s"
proof (induction rule: reachable.induct)
  case (new d s)
  then show ?case using new_HippoDB_consistent [of d] by simp
next
  case (step s op)
  then show ?case by (simp add: consistent_exec)
qed

lemma reachable_path_keyed: "reachable s \<Longrightarrow> path_keyed s"
proof (induction rule: reachable.induct)
  case (new d s)
  then show ?case using new_HippoDB_path_keyed [of d] by simp
next
  case (step s op)
  then show ?case by (simp add: path_keyed_exec)
qed

section \<open>The keys of the database maps\<close>

text \<open>
  C10. In every database map of the index, each key is the path of the database stored
  under it. Every operation keeps this, whatever its arguments and whether it returns or
  raises; \<^verbatim>\<open>load\<close> keeps it, whatever the disk holds; and it holds in the store that
  the constructor builds from any disk.
\<close>

theorem database_keys_are_paths:
  "(path_keyed s \<longrightarrow> path_keyed (exec op s)) \<and>
   (path_keyed s \<longrightarrow> path_keyed (snd (load s))) \<and>
   path_keyed (snd (new_HippoDB d))"
  by (simp add: path_keyed_exec load_path_keyed new_HippoDB_path_keyed)

theorem database_keys_are_paths_witness:
  "map_of (databases store_app) ''app-1'' = Some [(''/'', Database ''db-1'' ''app-1'' ''/'')] \<and>
   path_keyed store_app \<and>
   path_keyed (exec (CreateDatabase ''db-2'' ''app-1'' ''/a'') store_app) \<and>
   path_keyed (snd (load store_app)) \<and>
   path_keyed (snd (new_HippoDB None))"
proof -
  have "path_keyed store_app"
    by (auto simp: path_keyed_def store_app_index split: if_splits)
  then show ?thesis
    using database_keys_are_paths [of store_app "CreateDatabase ''db-2'' ''app-1'' ''/a''" None]
    by (simp add: store_app_index)
qed

section \<open>Reading a document\<close>

text \<open>
  C9. \<^verbatim>\<open>read_document\<close> of a name that the document map of the database does not hold
  raises \<^verbatim>\<open>KeyError\<close>, the exception of the code for a key that is not found, and the
  state it leaves is the state it started from.
\<close>

theorem read_document_unknown_name:
  "map_of (documents s) application = Some dbs \<Longrightarrow> map_of dbs database = Some docs \<Longrightarrow>
   map_of docs document_name = None \<Longrightarrow>
   read_document application database document_name s = (Inl KeyError, s)"
  by (simp add: read_document_def action_defs getitem_def)

theorem read_document_unknown_name_witness:
  "map_of (documents store_doc) ''app-1'' = Some [(''db-1'', [(''readme'', ''doc-1'')])] \<and>
   map_of [(''db-1'', [(''readme'', ''doc-1'')])] ''db-1'' = Some [(''readme'', ''doc-1'')] \<and>
   map_of [(''readme'', ''doc-1'')] ''index'' = None \<and>
   read_document ''app-1'' ''db-1'' ''index'' store_doc = (Inl KeyError, store_doc)"
  using read_document_unknown_name [of store_doc "''app-1''"
      "[(''db-1'', [(''readme'', ''doc-1'')])]" "''db-1''" "[(''readme'', ''doc-1'')]" "''index''"]
  by (simp add: store_doc_index)

end
